theory Spec2Isabelle
  imports Complex_Main "HOL-Library.Word"
begin

unbundle bit_operations_syntax

section \<open>Shared vocabulary\<close>

text \<open>
  A Go \<open>error\<close> return is an \<open>error option\<close> (\<open>None\<close> is \<open>nil\<close>). A nil dereference
  is a run-time panic of the goroutine; it is kept in the model as the value
  \<open>NilDereference\<close> so that no function silently continues past it.
\<close>

datatype error =
    ErrServerCapacityExceeded
  | ErrorsNew string
  | LibraryError string
  | ContextError string
  | NilDereference

datatype Level = DebugLevel | InfoLevel | WarnLevel | ErrorLevel

type_synonym LogEntry = "Level \<times> string"

type_synonym byte = "8 word"

section \<open>float64\<close>

text \<open>
  A \<open>float64\<close> is not-a-number, one of the two infinities, or a number. The
  comparison \<open>lt\<close> is Go's \<open><\<close>: false as soon as one side is NaN. Sums and
  differences follow IEEE 754 on NaN and the infinities; on two numbers they are the
  exact sum and difference, where \<open>float64\<close> rounds the result to the nearest value it
  can represent. Signed zeros are not distinguished.
\<close>

datatype float64 = NaN | NegInf | Num real | PosInf

fun lt :: "float64 \<Rightarrow> float64 \<Rightarrow> bool" where
  "lt NaN _ = False"
| "lt _ NaN = False"
| "lt _ NegInf = False"
| "lt NegInf _ = True"
| "lt PosInf _ = False"
| "lt _ PosInf = True"
| "lt (Num a) (Num b) = (a < b)"

definition gt :: "float64 \<Rightarrow> float64 \<Rightarrow> bool" where
  "gt a b = lt b a"

fun fneg :: "float64 \<Rightarrow> float64" where
  "fneg NaN = NaN"
| "fneg NegInf = PosInf"
| "fneg PosInf = NegInf"
| "fneg (Num a) = Num (- a)"

fun fadd :: "float64 \<Rightarrow> float64 \<Rightarrow> float64" where
  "fadd NaN _ = NaN"
| "fadd _ NaN = NaN"
| "fadd NegInf PosInf = NaN"
| "fadd PosInf NegInf = NaN"
| "fadd NegInf _ = NegInf"
| "fadd _ NegInf = NegInf"
| "fadd PosInf _ = PosInf"
| "fadd _ PosInf = PosInf"
| "fadd (Num a) (Num b) = Num (a + b)"

definition fsub :: "float64 \<Rightarrow> float64 \<Rightarrow> float64" where
  "fsub a b = fadd a (fneg b)"

definition isNaN :: "float64 \<Rightarrow> bool" where
  "isNaN a = (case a of NaN \<Rightarrow> True | _ \<Rightarrow> False)"

text \<open>
  \<open>sort.Float64s\<close> sorts in increasing order with NaN before every other value: its
  \<open>Less\<close> is \<open>x < y || (isNaN(x) && !isNaN(y))\<close>.
\<close>

definition Float64Slice_Less :: "float64 \<Rightarrow> float64 \<Rightarrow> bool" where
  "Float64Slice_Less x y = (lt x y \<or> (isNaN x \<and> \<not> isNaN y))"

fun insertFloat64 :: "float64 \<Rightarrow> float64 list \<Rightarrow> float64 list" where
  "insertFloat64 x [] = [x]"
| "insertFloat64 x (y # ys) =
     (if Float64Slice_Less y x then y # insertFloat64 x ys else x # y # ys)"

fun Float64s :: "float64 list \<Rightarrow> float64 list" where
  "Float64s [] = []"
| "Float64s (x # xs) = insertFloat64 x (Float64s xs)"

section \<open>pkg/config: the cost configuration\<close>

record CPUCostConfig =
  RTMPCpuCost :: float64
  WHIPCpuCost :: float64
  WHIPBypassTranscodingCpuCost :: float64

record Config =
  RTMPPort :: int
  CPUCost :: CPUCostConfig

section \<open>livekit protocol values read by this repository\<close>

datatype IngressInput = RTMP_INPUT | WHIP_INPUT | OtherInput int

datatype Status = ENDPOINT_INACTIVE | ENDPOINT_BUFFERING | ENDPOINT_PUBLISHING | ENDPOINT_ERROR

record IngressState =
  Status :: Status
  Error :: string

record IngressInfo =
  IngressId :: string
  InputType :: IngressInput
  BypassTranscoding :: bool
  State :: IngressState

section \<open>pkg/stats: the admission controller\<close>

text \<open>
  \<open>utils.CPUStats\<close> is an external sampler. The monitor reads two things from it: the
  number of cores and the latest idle sample.
\<close>

record CPUStats =
  NumCPU :: int
  GetCPUIdle :: float64

text \<open>The conversion \<open>float64(n)\<close> of a core count.\<close>

definition float64_of_int :: "int \<Rightarrow> float64" where
  "float64_of_int n = Num (real_of_int n)"

text \<open>
  A callback registered with \<open>time.AfterFunc\<close>: the delay in nanoseconds and the amount
  the callback subtracts from the pending counter when it fires.
\<close>

record Timer =
  delay :: nat
  cpuHold :: float64

definition Second :: nat where
  "Second = 1000000000"

record Monitor =
  cpuCostConfig :: CPUCostConfig
  maxCost :: float64
  cpuStats :: "CPUStats option"
  pendingCPUs :: float64
  timers :: "Timer list"

definition NewMonitor :: Monitor where
  "NewMonitor =
     \<lparr>cpuCostConfig =
        \<lparr>RTMPCpuCost = Num 0, WHIPCpuCost = Num 0, WHIPBypassTranscodingCpuCost = Num 0\<rparr>,
      maxCost = Num 0, cpuStats = None, pendingCPUs = Num 0, timers = []\<rparr>"

definition cost_warnings :: "CPUCostConfig \<Rightarrow> LogEntry list" where
  "cost_warnings costConfig =
     (if lt (RTMPCpuCost costConfig) (Num 1)
        then [(WarnLevel, ''rtmp input requirement too low'')] else []) @
     (if lt (WHIPCpuCost costConfig) (Num 1)
        then [(WarnLevel, ''whip input requirement too low'')] else []) @
     (if lt (WHIPBypassTranscodingCpuCost costConfig) (Num (5 / 100))
        then [(WarnLevel, ''whip input with transcoding bypassed requirement too low'')]
        else [])"

text \<open>
  \<open>Monitor.checkCPUConfig\<close>: three warnings, the sorted requirements, \<open>maxCost\<close>, then
  the capacity test against the first of the sorted requirements. The result is the
  returned error, the monitor as left behind, and what was logged.
  (\<open>recommendedMinimum\<close> only feeds the fields of the log lines.)
\<close>

definition checkCPUConfig ::
  "CPUCostConfig \<Rightarrow> Monitor \<Rightarrow> error option \<times> Monitor \<times> LogEntry list" where
  "checkCPUConfig costConfig m =
     (let warnings = cost_warnings costConfig;
          requirements = Float64s [RTMPCpuCost costConfig, WHIPCpuCost costConfig,
                                   WHIPBypassTranscodingCpuCost costConfig];
          m1 = m\<lparr>maxCost := requirements ! (length requirements - 1)\<rparr>
      in case cpuStats m1 of
           None \<Rightarrow> (Some NilDereference, m1, warnings)
         | Some cs \<Rightarrow>
             if lt (float64_of_int (NumCPU cs)) (requirements ! 0)
             then (Some ErrServerCapacityExceeded, m1,
                   warnings @ [(ErrorLevel, ''not enough cpu'')])
             else (None, m1,
                   warnings @
                   (if lt (float64_of_int (NumCPU cs)) (maxCost m1)
                    then [(ErrorLevel, ''not enough cpu for some ingress types'')] else []) @
                   [(InfoLevel, ''available CPU cores'')]))"

text \<open>
  \<open>Monitor.Start\<close>. The first argument is what \<open>utils.NewCPUStats\<close> returned. The
  Prometheus gauges are not part of the model. The body stores the sampler and the
  result of the check; it has no assignment to \<open>cpuCostConfig\<close>.
\<close>

definition Monitor_Start ::
  "error + CPUStats \<Rightarrow> Config \<Rightarrow> Monitor \<Rightarrow> error option \<times> Monitor \<times> LogEntry list" where
  "Monitor_Start newCPUStats conf m =
     (case newCPUStats of
        Inl err \<Rightarrow> (Some err, m, [])
      | Inr stats \<Rightarrow> checkCPUConfig (CPUCost conf) (m\<lparr>cpuStats := Some stats\<rparr>))"

definition CanAcceptIngress :: "Monitor \<Rightarrow> error + bool" where
  "CanAcceptIngress m =
     (case cpuStats m of
        None \<Rightarrow> Inl NilDereference
      | Some cs \<Rightarrow> Inr (gt (fsub (GetCPUIdle cs) (pendingCPUs m)) (maxCost m)))"

text \<open>
  \<open>Monitor.AcceptIngress\<close>. The \<open>switch\<close> yields the decision, the amount to hold
  and what it logged; its default branch leaves \<open>accept\<close> and \<open>cpuHold\<close> at their zero
  values. On acceptance the amount is added to the pending counter and a one-second
  timer is registered to take it off again. The difference and the sum are those of
  the \<open>float64\<close> section: exact on two numbers, so a run whose sums are not
  representable in \<open>float64\<close> is followed only up to that rounding.
\<close>

definition AcceptIngress ::
  "IngressInfo \<Rightarrow> Monitor \<Rightarrow> (error + bool) \<times> Monitor \<times> LogEntry list" where
  "AcceptIngress info m =
     (case cpuStats m of
        None \<Rightarrow> (Inl NilDereference, m, [])
      | Some cs \<Rightarrow>
          (let available = fsub (GetCPUIdle cs) (pendingCPUs m)
           in case (case InputType info of
                      RTMP_INPUT \<Rightarrow>
                        (gt available (RTMPCpuCost (cpuCostConfig m)),
                         RTMPCpuCost (cpuCostConfig m), [])
                    | WHIP_INPUT \<Rightarrow>
                        if BypassTranscoding info
                        then (gt available (WHIPBypassTranscodingCpuCost (cpuCostConfig m)),
                              WHIPBypassTranscodingCpuCost (cpuCostConfig m), [])
                        else (gt available (WHIPCpuCost (cpuCostConfig m)),
                              WHIPCpuCost (cpuCostConfig m), [])
                    | OtherInput _ \<Rightarrow>
                        (False, Num 0, [(ErrorLevel, ''unsupported request type'')])) of
                (accept, hold, lg) \<Rightarrow>
                  (Inr accept,
                   (if accept
                    then m\<lparr>pendingCPUs := fadd (pendingCPUs m) hold,
                           timers := timers m @ [\<lparr>delay = Second, cpuHold = hold\<rparr>]\<rparr>
                    else m),
                   lg @ [(DebugLevel, ''cpu request'')])))"

text \<open>The callback of the oldest timer runs: \<open>m.pendingCPUs.Sub(cpuHold)\<close>.\<close>

definition fireTimer :: "Monitor \<Rightarrow> Monitor" where
  "fireTimer m =
     (case timers m of
        [] \<Rightarrow> m
      | t # ts \<Rightarrow> m\<lparr>pendingCPUs := fsub (pendingCPUs m) (cpuHold t), timers := ts\<rparr>)"

section \<open>pkg/rtmp: the publish-session handler\<close>

text \<open>
  An \<open>io.Writer\<close> value. The repository creates two kinds: the \<open>NoopWriter\<close>
  handed to the registry at publish time, and the \<open>bytes.Buffer\<close> the media handlers
  copy a payload into. \<open>Write\<close> returns the count, the error, and the writer as it is
  afterwards.
\<close>

datatype Writer = NoopWriter | Buffer "byte list"

definition Write :: "Writer \<Rightarrow> byte list \<Rightarrow> (int \<times> error option) \<times> Writer" where
  "Write w b =
     (case w of
        NoopWriter \<Rightarrow> ((int (length b), None), NoopWriter)
      | Buffer bs \<Rightarrow> ((int (length b), None), Buffer (bs @ b)))"

text \<open>The session registry: \<open>RTMPServer.writers\<close>, a \<open>sync.Map\<close>.\<close>

record RTMPServer =
  writers :: "string \<rightharpoonup> Writer"

definition Store :: "string \<Rightarrow> Writer \<Rightarrow> RTMPServer \<Rightarrow> RTMPServer" where
  "Store k w s = s\<lparr>writers := (writers s)(k \<mapsto> w)\<rparr>"

definition Load :: "string \<Rightarrow> RTMPServer \<Rightarrow> Writer option" where
  "Load k s = writers s k"

text \<open>
  The FLV tag types of the external container library, reduced to the fields the
  handlers touch.
\<close>

record AudioData =
  SoundFormat :: byte
  AudioBody :: "byte list"

record VideoData =
  CodecID :: byte
  VideoBody :: "byte list"

type_synonym ScriptData = "(string \<times> byte list) list"

datatype TagType = TagTypeAudio | TagTypeVideo | TagTypeScriptData

datatype TagData = ScriptTag ScriptData | AudioTag AudioData | VideoTag VideoData

record FlvTag =
  TagType :: TagType
  Timestamp :: "32 word"
  Data :: TagData

text \<open>
  The container library is external, so its five entry points are a parameter of every
  handler: the three decoders, the encoder's constructor and \<open>Encode\<close>. \<open>'enc\<close> is the
  library's encoder value.
\<close>

record 'enc FlvLib =
  DecodeScriptData :: "byte list \<Rightarrow> error + ScriptData"
  DecodeAudioData :: "byte list \<Rightarrow> error + AudioData"
  DecodeVideoData :: "byte list \<Rightarrow> error + VideoData"
  NewEncoder :: "Writer \<Rightarrow> byte \<Rightarrow> error + 'enc"
  Encode :: "'enc \<Rightarrow> FlvTag \<Rightarrow> error option \<times> 'enc"

definition FlagsAudio :: byte where
  "FlagsAudio = 4"

definition FlagsVideo :: byte where
  "FlagsVideo = 1"

record NetStreamPublish =
  PublishingName :: string
  PublishingType :: string

text \<open>
  \<open>rtmp.Handler\<close>. \<open>log\<close> is \<open>None\<close> until a publish command binds a logger to the
  stream identifier; calling a method on it before that is a nil dereference. The
  \<open>onPublish\<close> callback acts on the server that created the handler.
\<close>

record 'enc RtmpHandler =
  flvEnc :: "'enc option"
  ingressId :: string
  log :: "string option"
  onPublish :: "string \<Rightarrow> Writer \<Rightarrow> RTMPServer \<Rightarrow> RTMPServer"

type_synonym 'enc Session = "'enc RtmpHandler \<times> RTMPServer"

definition rtmp_NewHandler ::
  "(string \<Rightarrow> Writer \<Rightarrow> RTMPServer \<Rightarrow> RTMPServer) \<Rightarrow> 'enc RtmpHandler" where
  "rtmp_NewHandler cb = \<lparr>flvEnc = None, ingressId = [], log = None, onPublish = cb\<rparr>"

text \<open>
  The handler \<open>RTMPServer.Start\<close> builds in \<open>OnConnect\<close>: its callback stores the
  writer in the registry under the stream identifier.
\<close>

definition OnConnect :: "'enc RtmpHandler" where
  "OnConnect = rtmp_NewHandler (\<lambda>ingressID w s. Store ingressID w s)"

definition OnPublish ::
  "'enc FlvLib \<Rightarrow> 32 word \<Rightarrow> NetStreamPublish \<Rightarrow> 'enc Session \<Rightarrow>
     error option \<times> 'enc Session \<times> LogEntry list" where
  "OnPublish lib timestamp cmd hs =
     (case hs of (h, s) \<Rightarrow>
        if PublishingName cmd = []
        then (Some (ErrorsNew ''PublishingName is empty''), (h, s), [])
        else
          (let h1 = h\<lparr>ingressId := PublishingName cmd, log := Some (PublishingName cmd)\<rparr>;
               lg = [(InfoLevel, ''Received a new published stream'')];
               w = NoopWriter;
               s1 = onPublish h1 (ingressId h1) w s
           in case NewEncoder lib w (FlagsAudio OR FlagsVideo) of
                Inl err \<Rightarrow> (Some err, (h1, s1), lg)
              | Inr enc \<Rightarrow> (None, (h1\<lparr>flvEnc := Some enc\<rparr>, s1), lg)))"

text \<open>
  The tail shared by the three media handlers: encode one tag; a failed encode is logged
  and the handler still returns \<open>nil\<close>.
\<close>

definition forward ::
  "'enc FlvLib \<Rightarrow> string \<Rightarrow> FlvTag \<Rightarrow> 'enc Session \<Rightarrow>
     error option \<times> 'enc Session \<times> LogEntry list" where
  "forward lib msg tag hs =
     (case hs of (h, s) \<Rightarrow>
        (case flvEnc h of
           None \<Rightarrow> (Some NilDereference, (h, s), [])
         | Some enc \<Rightarrow>
             (case Encode lib enc tag of
                (None, enc') \<Rightarrow> (None, (h\<lparr>flvEnc := Some enc'\<rparr>, s), [])
              | (Some err, enc') \<Rightarrow>
                  (case log h of
                     None \<Rightarrow> (Some NilDereference, (h\<lparr>flvEnc := Some enc'\<rparr>, s), [])
                   | Some _ \<Rightarrow> (None, (h\<lparr>flvEnc := Some enc'\<rparr>, s), [(ErrorLevel, msg)])))))"

definition OnSetDataFrame ::
  "'enc FlvLib \<Rightarrow> 32 word \<Rightarrow> byte list \<Rightarrow> 'enc Session \<Rightarrow>
     error option \<times> 'enc Session \<times> LogEntry list" where
  "OnSetDataFrame lib timestamp payload hs =
     (case DecodeScriptData lib payload of
        Inl err \<Rightarrow>
          (case log (fst hs) of
             None \<Rightarrow> (Some NilDereference, hs, [])
           | Some _ \<Rightarrow> (None, hs, [(ErrorLevel, ''failed to decode script data'')]))
      | Inr script \<Rightarrow>
          forward lib ''failed to forward script data''
            \<lparr>TagType = TagTypeScriptData, Timestamp = timestamp, Data = ScriptTag script\<rparr> hs)"

text \<open>
  \<open>io.Copy\<close> of the decoded body into a fresh \<open>bytes.Buffer\<close>: the source is an
  in-memory reader, so the copy cannot fail and the body is what the buffer holds.
\<close>

definition copyBody :: "byte list \<Rightarrow> byte list" where
  "copyBody body = (case snd (Write (Buffer []) body) of Buffer bs \<Rightarrow> bs | NoopWriter \<Rightarrow> [])"

definition OnAudio ::
  "'enc FlvLib \<Rightarrow> 32 word \<Rightarrow> byte list \<Rightarrow> 'enc Session \<Rightarrow>
     error option \<times> 'enc Session \<times> LogEntry list" where
  "OnAudio lib timestamp payload hs =
     (case DecodeAudioData lib payload of
        Inl err \<Rightarrow> (Some err, hs, [])
      | Inr audio \<Rightarrow>
          forward lib ''failed to write audio''
            \<lparr>TagType = TagTypeAudio, Timestamp = timestamp,
             Data = AudioTag (audio\<lparr>AudioBody := copyBody (AudioBody audio)\<rparr>)\<rparr> hs)"

definition OnVideo ::
  "'enc FlvLib \<Rightarrow> 32 word \<Rightarrow> byte list \<Rightarrow> 'enc Session \<Rightarrow>
     error option \<times> 'enc Session \<times> LogEntry list" where
  "OnVideo lib timestamp payload hs =
     (case DecodeVideoData lib payload of
        Inl err \<Rightarrow> (Some err, hs, [])
      | Inr video \<Rightarrow>
          forward lib ''Failed to write video''
            \<lparr>TagType = TagTypeVideo, Timestamp = timestamp,
             Data = VideoTag (video\<lparr>VideoBody := copyBody (VideoBody video)\<rparr>)\<rparr> hs)"

text \<open>\<open>Handler.OnClose\<close> writes one log line and nothing else.\<close>

definition OnClose :: "'enc Session \<Rightarrow> error option \<times> 'enc Session \<times> LogEntry list" where
  "OnClose hs =
     (case log (fst hs) of
        None \<Rightarrow> (Some NilDereference, hs, [])
      | Some _ \<Rightarrow> (None, hs, [(InfoLevel, ''closing ingress RTMP session'')]))"

text \<open>
  The connection loop belongs to the RTMP library. Its contract towards the handler:
  messages are handed over in arrival order, the first handler error closes the
  connection, and \<open>OnClose\<close> runs when the connection closes (here also at the end of
  the input, the peer's disconnect). \<open>serve\<close> returns the handler error that closed the
  connection, if any.
\<close>

datatype Message =
    MsgPublish "32 word" NetStreamPublish
  | MsgSetDataFrame "32 word" "byte list"
  | MsgAudio "32 word" "byte list"
  | MsgVideo "32 word" "byte list"

definition dispatch ::
  "'enc FlvLib \<Rightarrow> Message \<Rightarrow> 'enc Session \<Rightarrow> error option \<times> 'enc Session \<times> LogEntry list" where
  "dispatch lib msg hs =
     (case msg of
        MsgPublish ts cmd \<Rightarrow> OnPublish lib ts cmd hs
      | MsgSetDataFrame ts payload \<Rightarrow> OnSetDataFrame lib ts payload hs
      | MsgAudio ts payload \<Rightarrow> OnAudio lib ts payload hs
      | MsgVideo ts payload \<Rightarrow> OnVideo lib ts payload hs)"

fun serve ::
  "'enc FlvLib \<Rightarrow> Message list \<Rightarrow> 'enc Session \<Rightarrow> error option \<times> 'enc Session \<times> LogEntry list" where
  "serve lib [] hs = (case OnClose hs of (_, hs', lg) \<Rightarrow> (None, hs', lg))"
| "serve lib (msg # rest) hs =
     (case dispatch lib msg hs of
        (None, hs1, lg1) \<Rightarrow>
          (case serve lib rest hs1 of (e, hs2, lg2) \<Rightarrow> (e, hs2, lg1 @ lg2))
      | (Some err, hs1, lg1) \<Rightarrow>
          (case OnClose hs1 of (_, hs2, lg2) \<Rightarrow> (Some err, hs2, lg1 @ lg2)))"

text \<open>
  A small instance of the library interface, used to run the handlers on concrete
  input: a decoder needs at least the one-byte tag header, the encoder is the writer
  it was opened on and writes nothing.
\<close>

definition plainFlv :: "Writer FlvLib" where
  "plainFlv =
     \<lparr>DecodeScriptData = (\<lambda>p. if p = [] then Inl (LibraryError ''EOF'') else Inr []),
      DecodeAudioData = (\<lambda>p. case p of [] \<Rightarrow> Inl (LibraryError ''EOF'')
                              | b # body \<Rightarrow> Inr \<lparr>SoundFormat = drop_bit 4 b, AudioBody = body\<rparr>),
      DecodeVideoData = (\<lambda>p. case p of [] \<Rightarrow> Inl (LibraryError ''EOF'')
                              | b # body \<Rightarrow> Inr \<lparr>CodecID = b AND 15, VideoBody = body\<rparr>),
      NewEncoder = (\<lambda>w flags. Inr w),
      Encode = (\<lambda>enc tag. (None, enc))\<rparr>"

section \<open>pkg/service: the per-ingress handler\<close>

text \<open>
  \<open>core.Fuse\<close> is an external one-shot signal: a flag that \<open>Break\<close> sets and nothing
  clears; \<open>Watch\<close> yields a channel that is ready exactly when the flag is set.
\<close>

type_synonym Fuse = bool

definition NewFuse :: Fuse where
  "NewFuse = False"

definition Break :: "Fuse \<Rightarrow> Fuse" where
  "Break f = True"

record Pipeline =
  PipelineState :: IngressState

record Handler =
  pipeline :: "Pipeline option"
  kill :: Fuse
  doneFuse :: Fuse

definition service_NewHandler :: Handler where
  "service_NewHandler = \<lparr>pipeline = None, kill = NewFuse, doneFuse = NewFuse\<rparr>"

definition Kill :: "'a Handler_scheme \<Rightarrow> 'a Handler_scheme" where
  "Kill h = h\<lparr>kill := Break (kill h)\<rparr>"

text \<open>
  Where the goroutine spawned by \<open>HandleIngress\<close> stands: not spawned, inside
  \<open>p.Run\<close>, past the send on \<open>result\<close>, past \<open>h.done.Break()\<close>.
\<close>

datatype Goroutine = NotStarted | Running | ResultSent | Finished

text \<open>
  One activation of \<open>HandleIngress\<close>: the handler's fields, the locals of the routine
  (\<open>killCh\<close> is false once the local \<open>kill\<close> channel has been set to \<open>nil\<close>; \<open>result\<close>
  is the one-slot channel), the goroutine, and what the routine has done so far: the
  calls of \<open>p.SendEOS\<close> and the states passed to \<open>sendUpdate\<close>.
\<close>

record Supervision = Handler +
  killCh :: bool
  result :: "IngressInfo option"
  goroutine :: Goroutine
  returned :: bool
  eosRequests :: nat
  updates :: "IngressInfo list"

text \<open>
  \<open>Handler.buildPipeline\<close>. \<open>params.GetParams\<close> and \<open>media.New\<close> are external: the
  first argument is the text \<open>err.Error()\<close> gives, the second what \<open>GetParams\<close>
  returned, the third is \<open>media.New\<close>. On an error the ingress (that of the parameters
  when there are parameters) gets the error text and the status \<open>ENDPOINT_ERROR\<close> and
  is passed to \<open>sendUpdate\<close>; the result then carries the error and the state that
  was sent.
\<close>

record Params =
  Params_IngressInfo :: IngressInfo

definition buildPipeline ::
  "(error \<Rightarrow> string) \<Rightarrow> Params option \<times> error option \<Rightarrow>
     (Params option \<Rightarrow> error + Pipeline) \<Rightarrow> IngressInfo \<Rightarrow>
     (error \<times> IngressInfo) + Pipeline" where
  "buildPipeline errorText getParams mediaNew info =
     (case getParams of (params, err0) \<Rightarrow>
        (case (case err0 of
                 None \<Rightarrow> mediaNew params
               | Some err \<Rightarrow> Inl err) of
           Inl err \<Rightarrow>
             (let info1 = (case params of
                             Some ps \<Rightarrow> Params_IngressInfo ps
                           | None \<Rightarrow> info)
              in Inl (err, info1\<lparr>State := \<lparr>Status = ENDPOINT_ERROR, Error = errorText err\<rparr>\<rparr>))
         | Inr p \<Rightarrow> Inr p))"

text \<open>
  \<open>HandleIngress\<close> up to the loop. The argument is what \<open>buildPipeline\<close> returned; on
  an error the routine returns at once and starts neither the goroutine nor the loop,
  and the one update so far is the one \<open>buildPipeline\<close> sent.
\<close>

definition HandleIngress :: "(error \<times> IngressInfo) + Pipeline \<Rightarrow> Handler \<Rightarrow> Supervision" where
  "HandleIngress built h =
     (case built of
        Inl (err, sent) \<Rightarrow>
          \<lparr>pipeline = pipeline h, kill = kill h, doneFuse = doneFuse h,
           killCh = False, result = None, goroutine = NotStarted, returned = True,
           eosRequests = 0, updates = [sent]\<rparr>
      | Inr p \<Rightarrow>
          \<lparr>pipeline = Some p, kill = kill h, doneFuse = doneFuse h,
           killCh = True, result = None, goroutine = Running, returned = False,
           eosRequests = 0, updates = []\<rparr>)"

text \<open>
  The atomic actions of the parties around one session: a caller breaking the kill
  fuse, the pipeline changing its state while \<open>p.Run\<close> executes, the goroutine
  (\<open>p.Run\<close> returns and its result is sent; then the done fuse is broken), and the two
  branches of the loop's \<open>select\<close>. A branch is enabled when its channel is ready: a
  \<open>nil\<close> channel never is, a broken fuse's channel always is. An action that is not
  enabled leaves the state as it is.
\<close>

datatype Event =
    CallKill
  | SetState IngressState
  | RunReturns IngressInfo
  | BreakDone
  | SelectKill
  | SelectResult

definition step :: "Event \<Rightarrow> Supervision \<Rightarrow> Supervision" where
  "step e s =
     (case e of
        CallKill \<Rightarrow> Kill s
      | SetState st \<Rightarrow>
          (case pipeline s of
             Some p \<Rightarrow>
               if goroutine s = Running
               then s\<lparr>pipeline := Some (p\<lparr>PipelineState := st\<rparr>)\<rparr> else s
           | None \<Rightarrow> s)
      | RunReturns res \<Rightarrow>
          if goroutine s = Running
          then s\<lparr>result := Some res, goroutine := ResultSent\<rparr> else s
      | BreakDone \<Rightarrow>
          if goroutine s = ResultSent
          then s\<lparr>doneFuse := Break (doneFuse s), goroutine := Finished\<rparr> else s
      | SelectKill \<Rightarrow>
          if \<not> returned s \<and> killCh s \<and> kill s
          then s\<lparr>eosRequests := eosRequests s + 1, killCh := False\<rparr> else s
      | SelectResult \<Rightarrow>
          (case result s of
             Some res \<Rightarrow>
               if \<not> returned s
               then s\<lparr>updates := updates s @ [res], result := None, returned := True\<rparr>
               else s
           | None \<Rightarrow> s))"

fun run :: "Event list \<Rightarrow> Supervision \<Rightarrow> Supervision" where
  "run [] s = s"
| "run (e # es) s = run es (step e s)"

text \<open>
  The caller's side. \<open>expired\<close> says whether \<open>ctx.Done()\<close> is closed, \<open>ctxErr\<close> is what
  \<open>ctx.Err()\<close> then returns.
\<close>

record Context =
  expired :: bool
  ctxErr :: error

text \<open>
  The \<open>select\<close> of \<open>killAndReturnState\<close> at one moment: \<open>None\<close> while neither channel
  is ready. When both are ready Go picks either; \<open>pick\<close> is true when it picks the
  context.
\<close>

definition selectDone ::
  "bool \<Rightarrow> Context \<Rightarrow> 'a Handler_scheme \<Rightarrow> (IngressState option \<times> error option) option" where
  "selectDone pick ctx h =
     (if expired ctx \<and> (pick \<or> \<not> doneFuse h) then Some (None, Some (ctxErr ctx))
      else if doneFuse h then
        (case pipeline h of
           None \<Rightarrow> Some (None, Some NilDereference)
         | Some p \<Rightarrow> Some (Some (PipelineState p), None))
      else None)"

text \<open>
  While the caller is blocked the rest of the system moves: the session takes one of
  its actions, or the caller's context expires. The caller returns at the first moment
  its \<open>select\<close> has a ready channel; \<open>None\<close> means it is still blocked when the
  schedule ends. The second component is the session at the moment of the return, or
  at the end of the schedule.
\<close>

datatype Move = Session Event | Expire

fun sessionEvents :: "Move list \<Rightarrow> Event list" where
  "sessionEvents [] = []"
| "sessionEvents (Session e # rest) = e # sessionEvents rest"
| "sessionEvents (Expire # rest) = sessionEvents rest"

fun await ::
  "bool \<Rightarrow> Context \<Rightarrow> Move list \<Rightarrow> Supervision \<Rightarrow>
     (IngressState option \<times> error option) option \<times> Supervision" where
  "await pick ctx [] s = (selectDone pick ctx s, s)"
| "await pick ctx (move # rest) s =
     (case selectDone pick ctx s of
        Some r \<Rightarrow> (Some r, s)
      | None \<Rightarrow>
          (case move of
             Expire \<Rightarrow> await pick (ctx\<lparr>expired := True\<rparr>) rest s
           | Session e \<Rightarrow> await pick ctx rest (step e s)))"

definition killAndReturnState ::
  "bool \<Rightarrow> Context \<Rightarrow> Move list \<Rightarrow> Supervision \<Rightarrow>
     (IngressState option \<times> error option) option \<times> Supervision" where
  "killAndReturnState pick ctx moves s = await pick ctx moves (Kill s)"

record UpdateIngressRequest =
  UpdateIngressId :: string

record DeleteIngressRequest =
  DeleteIngressId :: string

text \<open>The two operations: the name of the tracing span, then the shared body.\<close>

definition UpdateIngress ::
  "bool \<Rightarrow> Context \<Rightarrow> UpdateIngressRequest \<Rightarrow> Move list \<Rightarrow> Supervision \<Rightarrow>
     string \<times> (IngressState option \<times> error option) option \<times> Supervision" where
  "UpdateIngress pick ctx req moves s =
     (''Handler.UpdateIngress'', killAndReturnState pick ctx moves s)"

definition DeleteIngress ::
  "bool \<Rightarrow> Context \<Rightarrow> DeleteIngressRequest \<Rightarrow> Move list \<Rightarrow> Supervision \<Rightarrow>
     string \<times> (IngressState option \<times> error option) option \<times> Supervision" where
  "DeleteIngress pick ctx req moves s =
     (''Handler.DeleteIngress'', killAndReturnState pick ctx moves s)"

section \<open>Concrete inputs\<close>

text \<open>
  The admission scenario: RTMP cost 2.0, WHIP cost 2.0, WHIP-bypass cost 0.1, on a
  four-core node whose sampler reports 3.0 idle cores, and an RTMP ingress.
\<close>

definition scenarioConf :: Config where
  "scenarioConf =
     \<lparr>RTMPPort = 0,
      CPUCost = \<lparr>RTMPCpuCost = Num 2, WHIPCpuCost = Num 2,
                 WHIPBypassTranscodingCpuCost = Num (1 / 10)\<rparr>\<rparr>"

definition scenarioStats :: CPUStats where
  "scenarioStats = \<lparr>NumCPU = 4, GetCPUIdle = Num 3\<rparr>"

definition rtmpInfo :: IngressInfo where
  "rtmpInfo =
     \<lparr>IngressId = ''ingress_id'', InputType = RTMP_INPUT, BypassTranscoding = False,
      State = \<lparr>Status = ENDPOINT_INACTIVE, Error = []\<rparr>\<rparr>"





text \<open>A connection that has just been accepted by a server with an empty registry.\<close>

definition emptyServer :: RTMPServer where
  "emptyServer = \<lparr>writers = Map.empty\<rparr>"

definition freshSession :: "Writer Session" where
  "freshSession = (OnConnect, emptyServer)"

definition publishCmd :: "string \<Rightarrow> NetStreamPublish" where
  "publishCmd k = \<lparr>PublishingName = k, PublishingType = ''live''\<rparr>"

text \<open>
  A session whose pipeline has been built, the state the pipeline ends in, the result
  \<open>p.Run\<close> returns, and a caller's context that has not expired.
\<close>

definition activeState :: IngressState where
  "activeState = \<lparr>Status = ENDPOINT_PUBLISHING, Error = []\<rparr>"

definition finalState :: IngressState where
  "finalState = \<lparr>Status = ENDPOINT_INACTIVE, Error = []\<rparr>"

definition builtSession :: Supervision where
  "builtSession = HandleIngress (Inr \<lparr>PipelineState = activeState\<rparr>) service_NewHandler"

definition finalInfo :: IngressInfo where
  "finalInfo = rtmpInfo\<lparr>State := finalState\<rparr>"

definition liveCtx :: Context where
  "liveCtx = \<lparr>expired = False, ctxErr = ContextError ''context deadline exceeded''\<rparr>"

definition finalPipeline :: Pipeline where
  "finalPipeline = \<lparr>PipelineState = finalState\<rparr>"

text \<open>
  The session's actions from the loop taking the cancellation branch up to the loop
  returning on the result.
\<close>

definition untilResult :: "Event list" where
  "untilResult = [SelectKill, SetState finalState, RunReturns finalInfo, SelectResult]"

text \<open>
  The session after all of that and the break of the done fuse, and a caller's context
  that has already expired.
\<close>

definition doneSession :: Supervision where
  "doneSession = step BreakDone (run untilResult (Kill builtSession))"

definition expiredCtx :: Context where
  "expiredCtx = \<lparr>expired = True, ctxErr = ContextError ''context deadline exceeded''\<rparr>"

section \<open>Auxiliary notions for the properties\<close>

text \<open>
  Calls of \<open>AcceptIngress\<close> one after the other on the same monitor, with no timer
  firing in between.
\<close>

fun admitAll :: "IngressInfo list \<Rightarrow> Monitor \<Rightarrow> (error + bool) list \<times> Monitor" where
  "admitAll [] m = ([], m)"
| "admitAll (info # rest) m =
     (case AcceptIngress info m of
        (r, m1, _) \<Rightarrow> (case admitAll rest m1 of (rs, m2) \<Rightarrow> (r # rs, m2)))"

text \<open>The monitor as \<open>Start\<close> leaves it in the admission scenario.\<close>

definition startedMonitor :: Monitor where
  "startedMonitor = fst (snd (Monitor_Start (Inr scenarioStats) scenarioConf NewMonitor))"

text \<open>
  A session of a handler built by \<open>OnConnect\<close> in whose registry the stream identifier
  \<open>k\<close> is bound to the no-op writer.
\<close>

definition registered :: "string \<Rightarrow> 'enc Session \<Rightarrow> bool" where
  "registered k hs \<longleftrightarrow>
     onPublish (fst hs) = (\<lambda>ingressID w s. Store ingressID w s)
     \<and> Load k (snd hs) = Some NoopWriter"

section \<open>Properties of the admission controller\<close>

lemma lt_NaN_right [simp]: "lt a NaN = False"
  by (cases a) auto



text \<open>
  What \<open>AcceptIngress\<close> does with the cost configuration held in the monitor: for a
  supported input type it accepts exactly when idle minus pending is strictly above
  the cost read from \<open>cpuCostConfig\<close>, and on acceptance it adds that cost to the
  pending counter and registers the one-second timer that takes it off again.
\<close>

lemma AcceptIngress_by_cpuCostConfig:
  assumes "cpuStats m = Some cs"
      and "InputType info = RTMP_INPUT \<or> InputType info = WHIP_INPUT"
      and "AcceptIngress info m = (r, m', lg)"
  shows "\<exists>cost.
           cost = (case InputType info of
                     RTMP_INPUT \<Rightarrow> RTMPCpuCost (cpuCostConfig m)
                   | WHIP_INPUT \<Rightarrow>
                       if BypassTranscoding info
                       then WHIPBypassTranscodingCpuCost (cpuCostConfig m)
                       else WHIPCpuCost (cpuCostConfig m)
                   | OtherInput _ \<Rightarrow> Num 0)
         \<and> r = Inr (gt (fsub (GetCPUIdle cs) (pendingCPUs m)) cost)
         \<and> (r = Inr True \<longrightarrow>
               m' = m\<lparr>pendingCPUs := fadd (pendingCPUs m) cost,
                       timers := timers m @ [\<lparr>delay = Second, cpuHold = cost\<rparr>]\<rparr>)
         \<and> (r = Inr False \<longrightarrow> m' = m)"
  using assms
  by (auto simp: AcceptIngress_def Let_def split: IngressInput.splits)

text \<open>
  \<open>Start\<close> never writes \<open>cpuCostConfig\<close>: whatever configuration it is given, the
  monitor keeps the costs it had before, which for \<open>NewMonitor\<close> are all zero.
\<close>

lemma Monitor_Start_keeps_cpuCostConfig:
  "Monitor_Start r conf m = (err, m', lg) \<Longrightarrow> cpuCostConfig m' = cpuCostConfig m"
  by (auto simp: Monitor_Start_def checkCPUConfig_def Let_def
           split: sum.splits option.splits if_splits)

text \<open>
  C1. The admission scenario run through the code: a new monitor is started with RTMP
  cost 2.0 on a node with 3.0 idle cores, then \<open>AcceptIngress\<close> is called twice for an
  RTMP ingress with no timer firing in between. The start succeeds, the monitor's RTMP
  cost is 0 and not the configured 2.0, both calls return true and the pending counter
  stays at 0.
\<close>

theorem AcceptIngress_after_Start_ignores_configured_cost:
  "(case Monitor_Start (Inr scenarioStats) scenarioConf NewMonitor of
      (err, m0, _) \<Rightarrow>
        (case AcceptIngress rtmpInfo m0 of
           (r1, m1, _) \<Rightarrow>
             (case AcceptIngress rtmpInfo m1 of
                (r2, m2, _) \<Rightarrow>
                  err = None \<and> RTMPCpuCost (CPUCost scenarioConf) = Num 2
                  \<and> RTMPCpuCost (cpuCostConfig m0) = Num 0
                  \<and> r1 = Inr True \<and> pendingCPUs m1 = Num 0
                  \<and> r2 = Inr True \<and> pendingCPUs m2 = Num 0)))"
  by (simp add: Monitor_Start_def checkCPUConfig_def scenarioConf_def scenarioStats_def
        NewMonitor_def cost_warnings_def AcceptIngress_def rtmpInfo_def Let_def
        float64_of_int_def Float64Slice_Less_def isNaN_def gt_def fsub_def)




text \<open>
  With zero costs in the monitor, no pending reservation and a positive idle sample,
  each call admits and leaves the monitor in the same situation.
\<close>

lemma zero_cost_admits:
  assumes "cpuStats m = Some cs" and "RTMPCpuCost (cpuCostConfig m) = Num 0"
      and "pendingCPUs m = Num 0" and "gt (GetCPUIdle cs) (Num 0)"
  shows "fst (AcceptIngress rtmpInfo m) = Inr True
       \<and> cpuStats (fst (snd (AcceptIngress rtmpInfo m))) = Some cs
       \<and> RTMPCpuCost (cpuCostConfig (fst (snd (AcceptIngress rtmpInfo m)))) = Num 0
       \<and> pendingCPUs (fst (snd (AcceptIngress rtmpInfo m))) = Num 0"
  using assms
  by (cases "GetCPUIdle cs")
     (simp_all add: AcceptIngress_def rtmpInfo_def Let_def gt_def fsub_def)

lemma admitAll_zero_cost:
  assumes "cpuStats m = Some cs" and "RTMPCpuCost (cpuCostConfig m) = Num 0"
      and "pendingCPUs m = Num 0" and "gt (GetCPUIdle cs) (Num 0)"
  shows "fst (admitAll (replicate n rtmpInfo) m) = replicate n (Inr True)
       \<and> pendingCPUs (snd (admitAll (replicate n rtmpInfo) m)) = Num 0"
  using assms
proof (induction n arbitrary: m)
  case 0
  then show ?case by simp
next
  case (Suc n)
  let ?m1 = "fst (snd (AcceptIngress rtmpInfo m))"
  from zero_cost_admits [OF Suc.prems]
  have r: "fst (AcceptIngress rtmpInfo m) = Inr True" and c: "cpuStats ?m1 = Some cs"
    and z: "RTMPCpuCost (cpuCostConfig ?m1) = Num 0" and p: "pendingCPUs ?m1 = Num 0"
    by blast+
  from Suc.IH [OF c z p Suc.prems(4)] r show ?case
    by (auto split: prod.splits)
qed

lemma startedMonitor_fields:
  "cpuStats startedMonitor = Some scenarioStats
   \<and> RTMPCpuCost (cpuCostConfig startedMonitor) = Num 0
   \<and> pendingCPUs startedMonitor = Num 0 \<and> gt (GetCPUIdle scenarioStats) (Num 0)"
  by (simp add: startedMonitor_def Monitor_Start_def checkCPUConfig_def scenarioConf_def
        scenarioStats_def NewMonitor_def Let_def float64_of_int_def Float64Slice_Less_def
        isNaN_def gt_def)

text \<open>
  C6. Any number of RTMP calls made one after the other on the monitor started with
  RTMP cost 2.0 and 3.0 idle cores: the start succeeds, every call is admitted and the
  pending counter stays at 0, so the calls admitted are not bounded by the idle
  capacity. (The calls are sequential here; interleavings of the separate load and
  add of the pending counter are not part of the model.)
\<close>

theorem started_monitor_admits_every_call:
  "fst (Monitor_Start (Inr scenarioStats) scenarioConf NewMonitor) = None
   \<and> fst (admitAll (replicate n rtmpInfo) startedMonitor) = replicate n (Inr True)
   \<and> pendingCPUs (snd (admitAll (replicate n rtmpInfo) startedMonitor)) = Num 0"
proof -
  have "fst (Monitor_Start (Inr scenarioStats) scenarioConf NewMonitor) = None"
    by (simp add: Monitor_Start_def checkCPUConfig_def scenarioConf_def
        scenarioStats_def NewMonitor_def Let_def float64_of_int_def Float64Slice_Less_def
        isNaN_def)
  moreover from startedMonitor_fields
  have "fst (admitAll (replicate n rtmpInfo) startedMonitor) = replicate n (Inr True)
       \<and> pendingCPUs (snd (admitAll (replicate n rtmpInfo) startedMonitor)) = Num 0"
    by (intro admitAll_zero_cost [of startedMonitor scenarioStats]) blast+
  ultimately show ?thesis by blast
qed

section \<open>Properties of the publish-session handler\<close>

text \<open>
  C3. A publish command with an empty stream key: \<open>OnPublish\<close> returns the error and
  leaves handler and registry as they were; the connection loop closes on that error
  without handling later messages, again with the registry untouched. Conversely, a
  call of \<open>OnPublish\<close> that changes the server had a non-empty stream key.
\<close>

theorem OnPublish_empty_key_rejected:
  "(PublishingName cmd = [] \<longrightarrow>
      OnPublish lib ts cmd (h, s) = (Some (ErrorsNew ''PublishingName is empty''), (h, s), [])
      \<and> fst (serve lib (MsgPublish ts cmd # rest) (h, s)) =
          Some (ErrorsNew ''PublishingName is empty'')
      \<and> fst (snd (serve lib (MsgPublish ts cmd # rest) (h, s))) = (h, s))
   \<and> (snd (fst (snd (OnPublish lib ts cmd (h, s)))) \<noteq> s \<longrightarrow> PublishingName cmd \<noteq> [])"
  by (auto simp: OnPublish_def dispatch_def OnClose_def split: prod.splits option.splits)

theorem OnPublish_empty_key_rejected_witness:
  "PublishingName (publishCmd []) = []
   \<and> OnPublish plainFlv 0 (publishCmd []) freshSession =
        (Some (ErrorsNew ''PublishingName is empty''), freshSession, [])
   \<and> fst (serve plainFlv [MsgPublish 0 (publishCmd []), MsgAudio 1 [175, 1]] freshSession) =
        Some (ErrorsNew ''PublishingName is empty'')
   \<and> fst (snd (serve plainFlv [MsgPublish 0 (publishCmd []), MsgAudio 1 [175, 1]]
                 freshSession)) = freshSession
   \<and> snd (fst (snd (OnPublish plainFlv 0 (publishCmd ''key'') freshSession))) \<noteq> emptyServer
   \<and> PublishingName (publishCmd ''key'') \<noteq> []"
proof -
  have e: "PublishingName (publishCmd []) = []"
    by (simp add: publishCmd_def)
  have w: "snd (fst (snd (OnPublish plainFlv 0 (publishCmd ''key'') (OnConnect, emptyServer))))
             \<noteq> emptyServer"
    by (simp add: OnPublish_def publishCmd_def plainFlv_def OnConnect_def rtmp_NewHandler_def
          Store_def emptyServer_def Let_def)
  from OnPublish_empty_key_rejected
         [of "publishCmd []" plainFlv 0 OnConnect emptyServer "[MsgAudio 1 [175, 1]]"]
       OnPublish_empty_key_rejected
         [of "publishCmd ''key''" plainFlv 0 OnConnect emptyServer "[]"]
       e w
  show ?thesis
    unfolding freshSession_def by blast
qed

text \<open>
  \<open>OnPublish\<close> takes no lookup and consults nothing but the emptiness of the stream
  key: with an encoder that opens, every non-empty key is accepted and registered.
\<close>

lemma OnPublish_any_nonempty_key:
  assumes "PublishingName cmd \<noteq> []"
      and "NewEncoder lib NoopWriter (FlagsAudio OR FlagsVideo) = Inr enc"
  shows "fst (OnPublish lib ts cmd (OnConnect, s)) = None
       \<and> Load (PublishingName cmd) (snd (fst (snd (OnPublish lib ts cmd (OnConnect, s)))))
           = Some NoopWriter"
  using assms
  by (simp add: OnPublish_def OnConnect_def rtmp_NewHandler_def Store_def Load_def Let_def)

text \<open>
  C4. A publish command whose stream key belongs to no ingress, on a fresh connection:
  \<open>OnPublish\<close> returns no error, binds the handler to the key and registers the sink.
\<close>

theorem OnPublish_accepts_unknown_key:
  "(case OnPublish plainFlv 0 (publishCmd ''not-an-ingress'') freshSession of
      (err, (h, s), _) \<Rightarrow>
        err = None \<and> ingressId h = ''not-an-ingress'' \<and> flvEnc h = Some NoopWriter
        \<and> Load ''not-an-ingress'' s = Some NoopWriter)"
  by (simp add: OnPublish_def publishCmd_def plainFlv_def freshSession_def OnConnect_def
        rtmp_NewHandler_def Store_def Load_def emptyServer_def Let_def)

text \<open>
  C5, as stated, fails: an audio tag with an empty payload does not decode, the audio
  handler returns the decode error, the connection loop closes on it, and the video
  tag that follows is not handled.
\<close>

theorem OnAudio_malformed_tag_is_fatal:
  "DecodeAudioData plainFlv [] = Inl (LibraryError ''EOF'')
   \<and> fst (OnAudio plainFlv 0 [] freshSession) = Some (LibraryError ''EOF'')
   \<and> fst (serve plainFlv
             [MsgPublish 0 (publishCmd ''key''), MsgAudio 1 [], MsgVideo 2 [23, 1]]
             freshSession) = Some (LibraryError ''EOF'')
   \<and> serve plainFlv [MsgPublish 0 (publishCmd ''key''), MsgAudio 1 [], MsgVideo 2 [23, 1]]
        freshSession
       = serve plainFlv [MsgPublish 0 (publishCmd ''key''), MsgAudio 1 []] freshSession"
  by (simp add: OnAudio_def plainFlv_def dispatch_def OnPublish_def publishCmd_def
        freshSession_def OnConnect_def rtmp_NewHandler_def Store_def emptyServer_def
        OnClose_def Let_def)

text \<open>
  C5, amended. For every decoder: an audio tag that does not decode makes the audio
  handler return the decode error with the session untouched, and the connection loop
  closes on it without handling the messages that follow; a video tag that does not
  decode does the same through the video handler.
\<close>

theorem malformed_media_tag_closes_session:
  "(DecodeAudioData lib p = Inl err \<longrightarrow>
      OnAudio lib ts p hs = (Some err, hs, [])
      \<and> fst (serve lib (MsgAudio ts p # rest) hs) = Some err
      \<and> serve lib (MsgAudio ts p # rest) hs = serve lib (MsgAudio ts p # []) hs)
   \<and> (DecodeVideoData lib p = Inl err \<longrightarrow>
      OnVideo lib ts p hs = (Some err, hs, [])
      \<and> fst (serve lib (MsgVideo ts p # rest) hs) = Some err
      \<and> serve lib (MsgVideo ts p # rest) hs = serve lib (MsgVideo ts p # []) hs)"
  by (auto simp: OnAudio_def OnVideo_def dispatch_def split: prod.splits)

theorem malformed_media_tag_closes_session_witness:
  "DecodeAudioData plainFlv [] = Inl (LibraryError ''EOF'')
   \<and> DecodeVideoData plainFlv [] = Inl (LibraryError ''EOF'')
   \<and> OnAudio plainFlv 7 [] freshSession = (Some (LibraryError ''EOF''), freshSession, [])
   \<and> OnVideo plainFlv 7 [] freshSession = (Some (LibraryError ''EOF''), freshSession, [])
   \<and> fst (serve plainFlv [MsgAudio 7 [], MsgVideo 8 [23, 1]] freshSession)
       = Some (LibraryError ''EOF'')
   \<and> fst (serve plainFlv [MsgVideo 7 [], MsgAudio 8 [175, 1]] freshSession)
       = Some (LibraryError ''EOF'')"
proof -
  have a: "DecodeAudioData plainFlv [] = Inl (LibraryError ''EOF'')"
    by (simp add: plainFlv_def)
  have v: "DecodeVideoData plainFlv [] = Inl (LibraryError ''EOF'')"
    by (simp add: plainFlv_def)
  from a v
    malformed_media_tag_closes_session
      [of plainFlv "[]" "LibraryError ''EOF''" 7 freshSession "[MsgVideo 8 [23, 1]]"]
    malformed_media_tag_closes_session
      [of plainFlv "[]" "LibraryError ''EOF''" 7 freshSession "[MsgAudio 8 [175, 1]]"]
  show ?thesis by blast
qed

text \<open>No handler removes a registration: \<open>registered\<close> is kept by every step.\<close>

lemma forward_keeps:
  "forward lib msg tag hs = (e, hs', lg) \<Longrightarrow> registered k hs \<Longrightarrow> registered k hs'"
  by (auto simp: forward_def registered_def split: prod.splits option.splits)

lemma OnPublish_keeps:
  "OnPublish lib ts cmd hs = (e, hs', lg) \<Longrightarrow> registered k hs \<Longrightarrow> registered k hs'"
  by (auto simp: OnPublish_def registered_def Store_def Load_def Let_def
           split: prod.splits sum.splits if_splits)

lemma dispatch_keeps:
  "dispatch lib msg hs = (e, hs', lg) \<Longrightarrow> registered k hs \<Longrightarrow> registered k hs'"
  by (cases msg)
     (auto simp: dispatch_def OnSetDataFrame_def OnAudio_def OnVideo_def
           dest: forward_keeps OnPublish_keeps split: sum.splits option.splits)

lemma OnClose_keeps: "OnClose hs = (e, hs', lg) \<Longrightarrow> hs' = hs"
  by (auto simp: OnClose_def split: option.splits)

lemma serve_keeps:
  "serve lib msgs hs = (e, hs', lg) \<Longrightarrow> registered k hs \<Longrightarrow> registered k hs'"
proof (induction msgs arbitrary: hs e hs' lg)
  case Nil
  then show ?case by (auto split: prod.splits dest: OnClose_keeps)
next
  case (Cons msg rest)
  obtain e1 hs1 lg1 where d: "dispatch lib msg hs = (e1, hs1, lg1)"
    by (cases "dispatch lib msg hs") auto
  from d Cons.prems(2) have r1: "registered k hs1" by (rule dispatch_keeps)
  show ?case
  proof (cases e1)
    case None
    obtain e2 hs2 lg2 where s: "serve lib rest hs1 = (e2, hs2, lg2)"
      by (cases "serve lib rest hs1") auto
    from Cons.IH [OF s r1] have "registered k hs2" .
    with Cons.prems(1) d None s show ?thesis by simp
  next
    case (Some err)
    obtain e2 hs2 lg2 where c: "OnClose hs1 = (e2, hs2, lg2)"
      by (cases "OnClose hs1") auto
    with Cons.prems(1) d Some r1 show ?thesis by (auto dest: OnClose_keeps)
  qed
qed

lemma OnPublish_registers:
  "PublishingName cmd \<noteq> [] \<Longrightarrow> OnPublish lib ts cmd (OnConnect, s) = (e, hs', lg) \<Longrightarrow>
     registered (PublishingName cmd) hs'"
  by (auto simp: OnPublish_def registered_def OnConnect_def rtmp_NewHandler_def Store_def
           Load_def Let_def split: sum.splits)

text \<open>
  C9, as stated, fails: after a publish under the key \<open>key\<close> and the close of the
  connection (by the peer's disconnect, or by a video tag that does not decode),
  \<open>Load\<close> of that key still finds the sink stored at publish time.
\<close>

theorem registration_survives_close:
  "Load ''key''
     (snd (fst (snd (serve plainFlv [MsgPublish 0 (publishCmd ''key'')] freshSession))))
     = Some NoopWriter
   \<and> Load ''key''
       (snd (fst (snd (serve plainFlv [MsgPublish 0 (publishCmd ''key''), MsgVideo 1 []]
                         freshSession))))
     = Some NoopWriter"
  by (simp add: plainFlv_def dispatch_def OnPublish_def OnVideo_def publishCmd_def
        freshSession_def OnConnect_def rtmp_NewHandler_def Store_def Load_def emptyServer_def
        OnClose_def Let_def)

text \<open>
  C9, amended. \<open>OnClose\<close> leaves handler and registry as they are; and on a connection
  built by \<open>OnConnect\<close>, once a publish command with a non-empty stream key has been
  handled, \<open>Load\<close> of that key finds the no-op sink after the connection has closed,
  whatever messages came between the publish and the close and whichever way the
  connection closed.
\<close>

theorem OnClose_keeps_registration:
  "fst (snd (OnClose hs)) = hs
   \<and> (PublishingName cmd \<noteq> [] \<longrightarrow>
        Load (PublishingName cmd)
          (snd (fst (snd (serve lib (MsgPublish ts cmd # rest) (OnConnect, s)))))
        = Some NoopWriter)"
proof -
  have close: "fst (snd (OnClose hs)) = hs"
    by (auto simp: OnClose_def split: option.splits)
  have "Load (PublishingName cmd)
          (snd (fst (snd (serve lib (MsgPublish ts cmd # rest) (OnConnect, s)))))
        = Some NoopWriter"
    if ne: "PublishingName cmd \<noteq> []"
  proof -
    obtain e hs' lg where r: "serve lib (MsgPublish ts cmd # rest) (OnConnect, s) = (e, hs', lg)"
      by (cases "serve lib (MsgPublish ts cmd # rest) (OnConnect, s)") auto
    obtain e1 hs1 lg1 where p: "OnPublish lib ts cmd (OnConnect, s) = (e1, hs1, lg1)"
      by (cases "OnPublish lib ts cmd (OnConnect, s)") auto
    from OnPublish_registers [OF ne p] have r1: "registered (PublishingName cmd) hs1" .
    have "registered (PublishingName cmd) hs'"
    proof (cases e1)
      case None
      obtain e2 hs2 lg2 where s2: "serve lib rest hs1 = (e2, hs2, lg2)"
        by (cases "serve lib rest hs1") auto
      from serve_keeps [OF s2 r1] have "registered (PublishingName cmd) hs2" .
      with r p None s2 show ?thesis by (simp add: dispatch_def)
    next
      case (Some err)
      obtain e2 hs2 lg2 where c: "OnClose hs1 = (e2, hs2, lg2)"
        by (cases "OnClose hs1") auto
      with r p Some r1 show ?thesis by (auto simp: dispatch_def dest: OnClose_keeps)
    qed
    with r show ?thesis by (simp add: registered_def)
  qed
  with close show ?thesis by blast
qed

theorem OnClose_keeps_registration_witness:
  "PublishingName (publishCmd ''key'') \<noteq> []
   \<and> fst (snd (OnClose freshSession)) = freshSession
   \<and> Load (PublishingName (publishCmd ''key''))
        (snd (fst (snd (serve plainFlv
           (MsgPublish 0 (publishCmd ''key'') # [MsgAudio 1 [175, 1], MsgVideo 2 []])
           (OnConnect, emptyServer)))))
      = Some NoopWriter"
proof -
  have ne: "PublishingName (publishCmd ''key'') \<noteq> []"
    by (simp add: publishCmd_def)
  from ne OnClose_keeps_registration
      [of freshSession "publishCmd ''key''" plainFlv 0
          "[MsgAudio 1 [175, 1], MsgVideo 2 []]" emptyServer]
  show ?thesis by blast
qed

text \<open>
  C10. \<open>Write\<close> on the no-op writer reports the full length and no error for every
  byte slice and keeps nothing; and for a non-empty stream key the sink \<open>OnPublish\<close>
  registers is that writer, and the encoder it hands to the handler is the one opened
  on that writer.
\<close>

theorem NoopWriter_Write_discards:
  "Write NoopWriter b = ((int (length b), None), NoopWriter)
   \<and> (PublishingName cmd \<noteq> [] \<longrightarrow>
        Load (PublishingName cmd) (snd (fst (snd (OnPublish lib ts cmd (OnConnect, s)))))
        = Some NoopWriter)
   \<and> (PublishingName cmd \<noteq> []
        \<and> NewEncoder lib NoopWriter (FlagsAudio OR FlagsVideo) = Inr enc \<longrightarrow>
        flvEnc (fst (fst (snd (OnPublish lib ts cmd (OnConnect, s))))) = Some enc)"
  by (auto simp: Write_def OnPublish_def OnConnect_def rtmp_NewHandler_def Store_def Load_def
           Let_def split: sum.splits)

theorem NoopWriter_Write_discards_witness:
  "PublishingName (publishCmd ''key'') \<noteq> []
   \<and> NewEncoder plainFlv NoopWriter (FlagsAudio OR FlagsVideo) = Inr NoopWriter
   \<and> Write NoopWriter [1, 2, 3] = ((int (length [1, 2, 3 :: byte]), None), NoopWriter)
   \<and> Load (PublishingName (publishCmd ''key''))
        (snd (fst (snd (OnPublish plainFlv 0 (publishCmd ''key'') (OnConnect, emptyServer)))))
      = Some NoopWriter
   \<and> flvEnc (fst (fst (snd (OnPublish plainFlv 0 (publishCmd ''key'')
                               (OnConnect, emptyServer)))))
      = Some NoopWriter"
proof -
  have ne: "PublishingName (publishCmd ''key'') \<noteq> []"
    by (simp add: publishCmd_def)
  have enc: "NewEncoder plainFlv NoopWriter (FlagsAudio OR FlagsVideo) = Inr NoopWriter"
    by (simp add: plainFlv_def)
  from ne enc
    NoopWriter_Write_discards [of "[1, 2, 3]" "publishCmd ''key''" plainFlv 0 emptyServer NoopWriter]
  show ?thesis by blast
qed

section \<open>Properties of the per-ingress handler\<close>

lemma Kill_sets: "kill (Kill s)"
  by (simp add: Kill_def Break_def)



text \<open>Both fuses stay broken once broken.\<close>

lemma step_kill_mono: "kill s \<Longrightarrow> kill (step e s)"
  by (cases e) (auto simp: step_def Kill_def Break_def split: option.splits)

lemma step_done_mono: "doneFuse s \<Longrightarrow> doneFuse (step e s)"
  by (cases e) (auto simp: step_def Kill_def Break_def split: option.splits)

lemma run_done_mono: "doneFuse s \<Longrightarrow> doneFuse (run es s)"
  by (induction es arbitrary: s) (auto intro: step_done_mono)

lemma run_kill_mono: "kill s \<Longrightarrow> kill (run es s)"
  by (induction es arbitrary: s) (auto intro: step_kill_mono)






lemmas session_eval = step_def Kill_def Break_def builtSession_def HandleIngress_def
  service_NewHandler_def NewFuse_def untilResult_def finalPipeline_def liveCtx_def
  doneSession_def expiredCtx_def



text \<open>What the caller's \<open>select\<close> returns, and when it cannot return.\<close>

lemma selectDone_cases:
  "selectDone pick ctx h = Some (st, err) \<Longrightarrow>
     (st = None \<and> err = Some (ctxErr ctx) \<and> expired ctx)
     \<or> (st = None \<and> err = Some NilDereference \<and> doneFuse h \<and> pipeline h = None)
     \<or> (err = None \<and> doneFuse h \<and> (\<exists>p. pipeline h = Some p \<and> st = Some (PipelineState p)))"
  by (auto simp: selectDone_def split: if_splits option.splits)

lemma selectDone_blocked:
  "\<not> expired ctx \<Longrightarrow> \<not> doneFuse h \<Longrightarrow> selectDone pick ctx h = None"
  by (simp add: selectDone_def)

lemma selectDone_expired:
  "expired ctx \<Longrightarrow> pick \<or> \<not> doneFuse h \<Longrightarrow> selectDone pick ctx h = Some (None, Some (ctxErr ctx))"
  by (simp add: selectDone_def)

lemma selectDone_done:
  "doneFuse h \<Longrightarrow> \<not> expired ctx \<or> \<not> pick \<Longrightarrow>
     selectDone pick ctx h =
       Some (case pipeline h of
               None \<Rightarrow> (None, Some NilDereference)
             | Some p \<Rightarrow> (Some (PipelineState p), None))"
  by (auto simp: selectDone_def split: option.splits)

text \<open>
  A caller whose \<open>select\<close> has a ready channel returns at once. In every case the
  session is left where some prefix of its own actions has taken it.
\<close>

lemma await_ready:
  "selectDone pick ctx s = Some r \<Longrightarrow> await pick ctx moves s = (Some r, s)"
  by (cases moves) simp_all

lemma await_state:
  "\<exists>n. snd (await pick ctx moves s) = run (sessionEvents (take n moves)) s"
proof (induction moves arbitrary: ctx s)
  case Nil
  have "snd (await pick ctx [] s) = run (sessionEvents (take 0 [])) s" by simp
  then show ?case ..
next
  case (Cons move rest)
  show ?case
  proof (cases "selectDone pick ctx s")
    case (Some r)
    then have "snd (await pick ctx (move # rest) s) = run (sessionEvents (take 0 (move # rest))) s"
      by simp
    then show ?thesis ..
  next
    case None
    show ?thesis
    proof (cases move)
      case Expire
      from Cons.IH [of "ctx\<lparr>expired := True\<rparr>" s] obtain n
        where "snd (await pick (ctx\<lparr>expired := True\<rparr>) rest s) = run (sessionEvents (take n rest)) s"
        by blast
      with None Expire
      have "snd (await pick ctx (move # rest) s) = run (sessionEvents (take (Suc n) (move # rest))) s"
        by simp
      then show ?thesis ..
    next
      case (Session e)
      from Cons.IH [of ctx "step e s"] obtain n
        where "snd (await pick ctx rest (step e s)) = run (sessionEvents (take n rest)) (step e s)"
        by blast
      with None Session
      have "snd (await pick ctx (move # rest) s) = run (sessionEvents (take (Suc n) (move # rest))) s"
        by simp
      then show ?thesis ..
    qed
  qed
qed

lemma await_sound:
  "fst (await pick ctx moves s) = Some (st, err) \<Longrightarrow>
     (st = None \<and> err = Some (ctxErr ctx))
     \<or> (st = None \<and> err = Some NilDereference
         \<and> doneFuse (snd (await pick ctx moves s)) \<and> pipeline (snd (await pick ctx moves s)) = None)
     \<or> (err = None \<and> doneFuse (snd (await pick ctx moves s))
         \<and> (\<exists>p. pipeline (snd (await pick ctx moves s)) = Some p \<and> st = Some (PipelineState p)))"
proof (induction moves arbitrary: ctx s)
  case Nil
  then have "selectDone pick ctx s = Some (st, err)" by simp
  from selectDone_cases [OF this] show ?case by auto
next
  case (Cons move rest)
  show ?case
  proof (cases "selectDone pick ctx s")
    case (Some r)
    with Cons.prems have sel: "selectDone pick ctx s = Some (st, err)" by simp
    from selectDone_cases [OF sel] sel show ?thesis by auto
  next
    case None
    show ?thesis
    proof (cases move)
      case Expire
      with None Cons.prems
      have "fst (await pick (ctx\<lparr>expired := True\<rparr>) rest s) = Some (st, err)" by simp
      from Cons.IH [OF this] None Expire show ?thesis by simp
    next
      case (Session e)
      with None Cons.prems
      have "fst (await pick ctx rest (step e s)) = Some (st, err)" by simp
      from Cons.IH [OF this] None Session show ?thesis by simp
    qed
  qed
qed

text \<open>
  While the context has not expired and the done fuse is not broken, the caller stays
  blocked across the session's actions.
\<close>

lemma await_prefix:
  "\<not> expired ctx \<Longrightarrow> \<not> doneFuse (run before s) \<Longrightarrow>
     await pick ctx (map Session before @ rest) s = await pick ctx rest (run before s)"
proof (induction before arbitrary: s)
  case Nil
  then show ?case by simp
next
  case (Cons e es)
  from Cons.prems(2) have nd: "\<not> doneFuse s"
    using run_done_mono [of s "e # es"] by blast
  from Cons.prems(1) nd have "selectDone pick ctx s = None" by (rule selectDone_blocked)
  moreover from Cons.prems
  have "await pick ctx (map Session es @ rest) (step e s) = await pick ctx rest (run es (step e s))"
    by (intro Cons.IH) simp_all
  ultimately show ?case by simp
qed

text \<open>
  C7. \<open>UpdateIngress\<close> and \<open>DeleteIngress\<close> differ in the name of their tracing span
  only: on the same session, context and schedule they give the same result and leave
  the same session state, that of \<open>killAndReturnState\<close>. For every session state,
  context and schedule: the kill fuse is broken afterwards, and the session is where
  its own actions have taken it from \<open>Kill s\<close>. A result is the context's error with
  no state, or the pipeline's state with no error and then the done fuse is broken
  (or the panic of reading the state of a missing pipeline). The result itself, case
  by case: with the context already expired (and the done fuse not broken, or Go's
  \<open>select\<close> picking the context) the call returns the context's error at once; with
  the done fuse already broken (and the context not expired, or \<open>select\<close> picking the
  fuse) it returns the pipeline's state at once; otherwise, as long as the session's
  actions \<open>before\<close> have not broken the done fuse, the call is blocked, and it returns
  the context's error with no state if the context expires next, with the session
  left where it was, or the pipeline's state of that moment if the next action breaks
  the done fuse.
\<close>

theorem UpdateIngress_DeleteIngress_equivalent:
  "snd (UpdateIngress pick ctx ureq moves s) = snd (DeleteIngress pick ctx dreq moves s)
   \<and> snd (DeleteIngress pick ctx dreq moves s) = killAndReturnState pick ctx moves s
   \<and> kill (snd (killAndReturnState pick ctx moves s))
   \<and> (\<exists>n. snd (killAndReturnState pick ctx moves s) = run (sessionEvents (take n moves)) (Kill s))
   \<and> (fst (killAndReturnState pick ctx moves s) = Some (st, err) \<longrightarrow>
        (st = None \<and> err = Some (ctxErr ctx))
        \<or> (st = None \<and> err = Some NilDereference
            \<and> doneFuse (snd (killAndReturnState pick ctx moves s))
            \<and> pipeline (snd (killAndReturnState pick ctx moves s)) = None)
        \<or> (err = None \<and> doneFuse (snd (killAndReturnState pick ctx moves s))
            \<and> (\<exists>p. pipeline (snd (killAndReturnState pick ctx moves s)) = Some p
                     \<and> st = Some (PipelineState p))))
   \<and> (expired ctx \<and> (pick \<or> \<not> doneFuse s) \<longrightarrow>
        killAndReturnState pick ctx moves s = (Some (None, Some (ctxErr ctx)), Kill s))
   \<and> (doneFuse s \<and> (\<not> expired ctx \<or> \<not> pick) \<longrightarrow>
        killAndReturnState pick ctx moves s =
          (Some (case pipeline s of
                   None \<Rightarrow> (None, Some NilDereference)
                 | Some p \<Rightarrow> (Some (PipelineState p), None)),
           Kill s))
   \<and> (\<not> expired ctx \<and> \<not> doneFuse (run before (Kill s)) \<longrightarrow>
        killAndReturnState pick ctx (map Session before) s = (None, run before (Kill s))
        \<and> killAndReturnState pick ctx (map Session before @ Expire # later) s =
            (Some (None, Some (ctxErr ctx)), run before (Kill s))
        \<and> (doneFuse (step e (run before (Kill s))) \<longrightarrow>
            killAndReturnState pick ctx (map Session before @ Session e # later) s =
              (Some (case pipeline (step e (run before (Kill s))) of
                       None \<Rightarrow> (None, Some NilDereference)
                     | Some p \<Rightarrow> (Some (PipelineState p), None)),
               step e (run before (Kill s)))))"
proof -
  have same: "snd (UpdateIngress pick ctx ureq moves s) = snd (DeleteIngress pick ctx dreq moves s)"
    and body: "snd (DeleteIngress pick ctx dreq moves s) = killAndReturnState pick ctx moves s"
    by (simp_all add: UpdateIngress_def DeleteIngress_def)
  have where': "\<exists>n. snd (killAndReturnState pick ctx moves s)
                    = run (sessionEvents (take n moves)) (Kill s)"
    unfolding killAndReturnState_def by (rule await_state)
  then obtain n where n: "snd (killAndReturnState pick ctx moves s)
                    = run (sessionEvents (take n moves)) (Kill s)" ..
  have killed: "kill (snd (killAndReturnState pick ctx moves s))"
    unfolding n by (rule run_kill_mono) (rule Kill_sets)
  have shape: "(st = None \<and> err = Some (ctxErr ctx))
        \<or> (st = None \<and> err = Some NilDereference
            \<and> doneFuse (snd (killAndReturnState pick ctx moves s))
            \<and> pipeline (snd (killAndReturnState pick ctx moves s)) = None)
        \<or> (err = None \<and> doneFuse (snd (killAndReturnState pick ctx moves s))
            \<and> (\<exists>p. pipeline (snd (killAndReturnState pick ctx moves s)) = Some p
                     \<and> st = Some (PipelineState p)))"
    if "fst (killAndReturnState pick ctx moves s) = Some (st, err)"
    using that unfolding killAndReturnState_def by (rule await_sound)
  have late: "killAndReturnState pick ctx moves s = (Some (None, Some (ctxErr ctx)), Kill s)"
    if "expired ctx \<and> (pick \<or> \<not> doneFuse s)"
  proof -
    from that have "selectDone pick ctx (Kill s) = Some (None, Some (ctxErr ctx))"
      by (intro selectDone_expired) (simp_all add: Kill_def)
    then show ?thesis
      unfolding killAndReturnState_def by (rule await_ready)
  qed
  have early: "killAndReturnState pick ctx moves s =
          (Some (case pipeline s of
                   None \<Rightarrow> (None, Some NilDereference)
                 | Some p \<Rightarrow> (Some (PipelineState p), None)),
           Kill s)"
    if "doneFuse s \<and> (\<not> expired ctx \<or> \<not> pick)"
  proof -
    from that have "selectDone pick ctx (Kill s) =
       Some (case pipeline (Kill s) of
               None \<Rightarrow> (None, Some NilDereference)
             | Some p \<Rightarrow> (Some (PipelineState p), None))"
      by (intro selectDone_done) (simp_all add: Kill_def)
    then have "selectDone pick ctx (Kill s) =
       Some (case pipeline s of
               None \<Rightarrow> (None, Some NilDereference)
             | Some p \<Rightarrow> (Some (PipelineState p), None))"
      by (simp add: Kill_def)
    then show ?thesis
      unfolding killAndReturnState_def by (rule await_ready)
  qed
  have timing: "killAndReturnState pick ctx (map Session before) s = (None, run before (Kill s))
        \<and> killAndReturnState pick ctx (map Session before @ Expire # later) s =
            (Some (None, Some (ctxErr ctx)), run before (Kill s))
        \<and> (doneFuse (step e (run before (Kill s))) \<longrightarrow>
            killAndReturnState pick ctx (map Session before @ Session e # later) s =
              (Some (case pipeline (step e (run before (Kill s))) of
                       None \<Rightarrow> (None, Some NilDereference)
                     | Some p \<Rightarrow> (Some (PipelineState p), None)),
               step e (run before (Kill s))))"
    if ne: "\<not> expired ctx" and nd: "\<not> doneFuse (run before (Kill s))"
  proof -
    from ne nd have blocked: "selectDone pick ctx (run before (Kill s)) = None"
      by (rule selectDone_blocked)
    have "await pick ctx (map Session before @ []) (Kill s)
            = await pick ctx [] (run before (Kill s))"
      using ne nd by (rule await_prefix)
    with blocked have a: "killAndReturnState pick ctx (map Session before) s
                           = (None, run before (Kill s))"
      by (simp add: killAndReturnState_def)
    have "await pick ctx (map Session before @ Expire # later) (Kill s)
            = await pick ctx (Expire # later) (run before (Kill s))"
      using ne nd by (rule await_prefix)
    moreover have "await pick (ctx\<lparr>expired := True\<rparr>) later (run before (Kill s))
            = (Some (None, Some (ctxErr ctx)), run before (Kill s))"
      using nd by (intro await_ready) (simp add: selectDone_def)
    ultimately have b: "killAndReturnState pick ctx (map Session before @ Expire # later) s =
            (Some (None, Some (ctxErr ctx)), run before (Kill s))"
      using blocked by (simp add: killAndReturnState_def)
    have c: "killAndReturnState pick ctx (map Session before @ Session e # later) s =
              (Some (case pipeline (step e (run before (Kill s))) of
                       None \<Rightarrow> (None, Some NilDereference)
                     | Some p \<Rightarrow> (Some (PipelineState p), None)),
               step e (run before (Kill s)))"
      if d: "doneFuse (step e (run before (Kill s)))"
    proof -
      have "await pick ctx (map Session before @ Session e # later) (Kill s)
            = await pick ctx (Session e # later) (run before (Kill s))"
        using ne nd by (rule await_prefix)
      moreover have "await pick ctx later (step e (run before (Kill s)))
            = (Some (case pipeline (step e (run before (Kill s))) of
                       None \<Rightarrow> (None, Some NilDereference)
                     | Some p \<Rightarrow> (Some (PipelineState p), None)),
               step e (run before (Kill s)))"
        using d ne by (intro await_ready selectDone_done) simp_all
      ultimately show ?thesis
        using blocked by (simp add: killAndReturnState_def)
    qed
    from a b c show ?thesis by blast
  qed
  from same body killed where' shape late early timing show ?thesis by blast
qed

theorem UpdateIngress_DeleteIngress_equivalent_witness:
  "\<not> expired liveCtx
   \<and> \<not> doneFuse (run untilResult (Kill builtSession))
   \<and> doneFuse (step BreakDone (run untilResult (Kill builtSession)))
   \<and> snd (UpdateIngress False liveCtx \<lparr>UpdateIngressId = ''ingress_id''\<rparr>
            (map Session untilResult @ Session BreakDone # [Session CallKill]) builtSession)
       = snd (DeleteIngress False liveCtx \<lparr>DeleteIngressId = ''ingress_id''\<rparr>
            (map Session untilResult @ Session BreakDone # [Session CallKill]) builtSession)
   \<and> killAndReturnState False liveCtx
         (map Session untilResult @ Session BreakDone # [Session CallKill]) builtSession
       = (Some (Some (PipelineState finalPipeline), None),
          step BreakDone (run untilResult (Kill builtSession)))
   \<and> kill (snd (killAndReturnState False liveCtx
         (map Session untilResult @ Session BreakDone # [Session CallKill]) builtSession))
   \<and> killAndReturnState False liveCtx
         (map Session untilResult @ Expire # [Session CallKill]) builtSession
       = (Some (None, Some (ctxErr liveCtx)), run untilResult (Kill builtSession))
   \<and> killAndReturnState False liveCtx (map Session untilResult) builtSession
       = (None, run untilResult (Kill builtSession))
   \<and> expired expiredCtx \<and> \<not> doneFuse builtSession
   \<and> killAndReturnState False expiredCtx [Session SelectKill] builtSession
       = (Some (None, Some (ctxErr expiredCtx)), Kill builtSession)
   \<and> doneFuse doneSession
   \<and> killAndReturnState True liveCtx [Expire] doneSession
       = (Some (Some (PipelineState finalPipeline), None), Kill doneSession)"
proof -
  have h1: "\<not> expired liveCtx"
    by (simp add: liveCtx_def)
  have h2: "\<not> doneFuse (run untilResult (Kill builtSession))"
    by (simp add: session_eval)
  have h3: "doneFuse (step BreakDone (run untilResult (Kill builtSession)))"
    by (simp add: session_eval)
  have h4: "pipeline (step BreakDone (run untilResult (Kill builtSession))) = Some finalPipeline"
    by (simp add: session_eval)
  have h5: "expired expiredCtx"
    by (simp add: expiredCtx_def)
  have h6: "\<not> doneFuse builtSession"
    by (simp add: session_eval)
  have h7: "doneFuse doneSession"
    by (simp add: session_eval)
  have h8: "pipeline doneSession = Some finalPipeline"
    by (simp add: session_eval)
  note t = UpdateIngress_DeleteIngress_equivalent
    [of False liveCtx "\<lparr>UpdateIngressId = ''ingress_id''\<rparr>"
        "map Session untilResult @ Session BreakDone # [Session CallKill]" builtSession
        "\<lparr>DeleteIngressId = ''ingress_id''\<rparr>"
        "Some (PipelineState finalPipeline)" None
        untilResult "[Session CallKill]" BreakDone]
  note u = UpdateIngress_DeleteIngress_equivalent
    [of False expiredCtx _ "[Session SelectKill]" builtSession]
  note v = UpdateIngress_DeleteIngress_equivalent
    [of True liveCtx _ "[Expire]" doneSession]
  from t h1 h2 h3 have a: "killAndReturnState False liveCtx
         (map Session untilResult @ Session BreakDone # [Session CallKill]) builtSession
       = (Some (case pipeline (step BreakDone (run untilResult (Kill builtSession))) of
                  None \<Rightarrow> (None, Some NilDereference)
                | Some p \<Rightarrow> (Some (PipelineState p), None)),
          step BreakDone (run untilResult (Kill builtSession)))"
    by blast
  have a': "killAndReturnState False liveCtx
         (map Session untilResult @ Session BreakDone # [Session CallKill]) builtSession
       = (Some (Some (PipelineState finalPipeline), None),
          step BreakDone (run untilResult (Kill builtSession)))"
    unfolding a h4 by simp
  from u h5 h6 have b: "killAndReturnState False expiredCtx [Session SelectKill] builtSession
       = (Some (None, Some (ctxErr expiredCtx)), Kill builtSession)"
    by blast
  from v h1 h7 have c: "killAndReturnState True liveCtx [Expire] doneSession
       = (Some (case pipeline doneSession of
                  None \<Rightarrow> (None, Some NilDereference)
                | Some p \<Rightarrow> (Some (PipelineState p), None)),
          Kill doneSession)"
    by blast
  have c': "killAndReturnState True liveCtx [Expire] doneSession
       = (Some (Some (PipelineState finalPipeline), None), Kill doneSession)"
    unfolding c h8 by simp
  from t h1 h2 h3 h5 h6 h7 a' b c' show ?thesis by blast
qed

end
